theory Spec2Isabelle
  imports Complex_Main
begin

section \<open>Severity levels (webscout/Litlogger/core/level.py)\<close>

text \<open>
  \<^verbatim>\<open>class LogLevel(Enum)\<close> is a closed enumeration of five members, each with an integer value.
\<close>

datatype LogLevel = DEBUG | INFO | WARNING | ERROR | CRITICAL

fun level_value :: "LogLevel \<Rightarrow> int" where
  "level_value DEBUG = 10"
| "level_value INFO = 20"
| "level_value WARNING = 30"
| "level_value ERROR = 40"
| "level_value CRITICAL = 50"

text \<open>
  A Python string is a sequence of code points; \<open>pystr\<close> is the list of their numbers, and
  \<open>str_of\<close> writes an ASCII literal as such a list.
\<close>

type_synonym pystr = "nat list"

definition str_of :: "string \<Rightarrow> pystr" where
  "str_of s = map of_char s"

text \<open>
  The table behind \<^verbatim>\<open>LogLevel[name]\<close>: the enumeration's members by name, in the order of
  the class body. The class has no aliases.
\<close>

definition members :: "(pystr \<times> LogLevel) list" where
  "members = [(str_of ''DEBUG'', DEBUG), (str_of ''INFO'', INFO), (str_of ''WARNING'', WARNING),
              (str_of ''ERROR'', ERROR), (str_of ''CRITICAL'', CRITICAL)]"

text \<open>
  \<^verbatim>\<open>str.upper()\<close> maps each code point to its upper-case form, which for some is more than
  one code point. The small ASCII letters a to z go to A to Z. \<open>special_casing\<close> lists every
  code point outside ASCII whose upper-case form contains an ASCII character, with that
  form: among them the dotless i (U+0131), which goes to I, and the long s (U+017F), which
  goes to S. The upper-case form of every other code point outside ASCII contains no ASCII
  character; as the member names are ASCII, such a code point is kept as it is, which
  changes no lookup.
\<close>

definition special_casing :: "(nat \<times> nat list) list" where
  "special_casing =
     [(0xDF, [0x53, 0x53]), (0x131, [0x49]), (0x149, [0x2BC, 0x4E]), (0x17F, [0x53]),
      (0x1F0, [0x4A, 0x30C]), (0x1E96, [0x48, 0x331]), (0x1E97, [0x54, 0x308]),
      (0x1E98, [0x57, 0x30A]), (0x1E99, [0x59, 0x30A]), (0x1E9A, [0x41, 0x2BE]),
      (0xFB00, [0x46, 0x46]), (0xFB01, [0x46, 0x49]), (0xFB02, [0x46, 0x4C]),
      (0xFB03, [0x46, 0x46, 0x49]), (0xFB04, [0x46, 0x46, 0x4C]),
      (0xFB05, [0x53, 0x54]), (0xFB06, [0x53, 0x54])]"

definition upper_cp :: "nat \<Rightarrow> nat list" where
  "upper_cp c =
     (if 0x61 \<le> c \<and> c \<le> 0x7A then [c - 0x20]
      else (case map_of special_casing c of Some u \<Rightarrow> u | None \<Rightarrow> [c]))"

definition upper :: "pystr \<Rightarrow> pystr" where
  "upper s = concat (map upper_cp s)"

text \<open>
  \<^verbatim>\<open>get_level\<close>: the lookup raises \<^verbatim>\<open>KeyError\<close> for a name that is not a member, and the
  handler turns it into \<^verbatim>\<open>ValueError(f"Invalid log level: {level_str}")\<close>, with the text as
  the caller wrote it.
\<close>

datatype level_error = ValueError pystr

definition get_level :: "pystr \<Rightarrow> level_error + LogLevel" where
  "get_level level_str =
     (case map_of members (upper level_str) of
        Some l \<Rightarrow> Inr l
      | None \<Rightarrow> Inl (ValueError (str_of ''Invalid log level: '' @ level_str)))"

text \<open>
  \<^verbatim>\<open>__lt__\<close> answers for another \<^verbatim>\<open>LogLevel\<close> and returns \<^verbatim>\<open>NotImplemented\<close> for anything
  else. \<open>pyobj\<close> lists the right operands considered: a level, or a value of a built-in
  type that is not a level.
\<close>

datatype pyobj = Level LogLevel | IntObj int | StrObj pystr | NoneObj

datatype 'a dunder = NotImplemented | Returned 'a

definition dunder_lt :: "LogLevel \<Rightarrow> pyobj \<Rightarrow> bool dunder" where
  "dunder_lt self other =
     (case other of
        Level l \<Rightarrow> Returned (level_value self < level_value l)
      | _ \<Rightarrow> NotImplemented)"

text \<open>
  The interpreter's \<^verbatim>\<open>a < b\<close> with a level on the left: it calls \<^verbatim>\<open>a.__lt__(b)\<close>; when that
  is \<^verbatim>\<open>NotImplemented\<close> it asks the right operand's reflected method, which for an int, a
  str or None does not know levels either, and the comparison raises \<^verbatim>\<open>TypeError\<close>.
  \<^verbatim>\<open>a > b\<close> between two levels is answered by the reflected \<^verbatim>\<open>b.__lt__(a)\<close>, the class
  defining no \<^verbatim>\<open>__gt__\<close>; equality of members is identity.
\<close>

datatype compare_error = UnsupportedOperands

definition less_than :: "LogLevel \<Rightarrow> pyobj \<Rightarrow> compare_error + bool" where
  "less_than a b =
     (case dunder_lt a b of
        Returned r \<Rightarrow> Inr r
      | NotImplemented \<Rightarrow> Inl UnsupportedOperands)"

definition greater_than :: "LogLevel \<Rightarrow> LogLevel \<Rightarrow> compare_error + bool" where
  "greater_than a b = less_than b (Level a)"

text \<open>
  The claim's "name in any letter case": \<open>s\<close> spells \<open>name\<close> when it has the same length
  and each of its characters is the name's letter, as the capital or as the small ASCII
  letter (the capital's code plus 32).
\<close>

definition spells :: "pystr \<Rightarrow> pystr \<Rightarrow> bool" where
  "spells s name = list_all2 (\<lambda>c d. c = d \<or> c = d + 0x20) s name"

text \<open>
  The same with the small forms \<^verbatim>\<open>upper()\<close> knows: the dotless i also counts as a small
  I, and the long s as a small S.
\<close>

definition spells_upper :: "pystr \<Rightarrow> pystr \<Rightarrow> bool" where
  "spells_upper s name =
     list_all2 (\<lambda>c d. c = d \<or> c = d + 0x20 \<or> (d = 0x49 \<and> c = 0x131) \<or> (d = 0x53 \<and> c = 0x17F))
       s name"

text \<open>
  For the proofs: the ASCII capitals, the first two code points of every upper-case form
  longer than one, and the strings in which no such pair occurs.
\<close>

definition is_capital :: "nat \<Rightarrow> bool" where
  "is_capital d = (0x41 \<le> d \<and> d \<le> 0x5A)"

definition long_heads :: "(nat \<times> nat) list" where
  "long_heads = map (\<lambda>(c, u). (u ! 0, u ! 1)) (filter (\<lambda>(c, u). 2 \<le> length u) special_casing)"

fun free_of_long_heads :: "pystr \<Rightarrow> bool" where
  "free_of_long_heads (x # y # zs) = ((x, y) \<notin> set long_heads \<and> free_of_long_heads (y # zs))"
| "free_of_long_heads zs = True"

section \<open>The stream decoder (webscout/Provider/granite.py, \<^verbatim>\<open>IBMGranite.ask\<close>)\<close>

text \<open>
  The decoder tests a string for emptiness, measures it and joins it to others, and never
  looks at a character; its strings are written as \<^typ>\<open>string\<close>, one \<^typ>\<open>char\<close> standing
  for one code point.
\<close>

subsection \<open>What \<^verbatim>\<open>json.loads\<close> returns\<close>

text \<open>
  The Python values a JSON document decodes to. A float is finite with an exact rational
  value, or one of the three special values the decoder also accepts. The items of a
  \<open>PDict\<close> are those of the decoded object, one for each key; its keys are strings.
\<close>

datatype pyfloat = Finite rat | PosInf | NegInf | NaN

datatype pyval =
    PNone
  | PBool bool
  | PInt int
  | PFloat pyfloat
  | PStr string
  | PList "pyval list"
  | PDict "(string \<times> pyval) list"

text \<open>
  The exceptions the body of the loop can meet besides \<^verbatim>\<open>JSONDecodeError\<close>, each with its
  \<^verbatim>\<open>str(e)\<close>: those of the shape test of line 147, and \<^verbatim>\<open>RecursionError\<close>, which
  \<^verbatim>\<open>json.loads\<close> raises on a document nested too deeply.
\<close>

datatype pyexn = TypeError string | KeyError string | IndexError string | RecursionError string

fun str_exn :: "pyexn \<Rightarrow> string" where
  "str_exn (TypeError m) = m"
| "str_exn (KeyError k) = k"
| "str_exn (IndexError m) = m"
| "str_exn (RecursionError m) = m"

text \<open>
  \<^verbatim>\<open>json.loads\<close> is the standard library's and enters the model as a parameter \<open>loads\<close>.
  On a line it returns a value (\<open>Decoded\<close>), or raises \<^verbatim>\<open>JSONDecodeError\<close>, or raises
  another exception (\<open>Raises\<close>).
\<close>

datatype loads_result = Decoded pyval | JSONDecodeError | Raises pyexn

type_synonym json_loads = "string \<Rightarrow> loads_result"

definition apostrophe :: char where
  "apostrophe = CHR 0x27"

fun type_name :: "pyval \<Rightarrow> string" where
  "type_name PNone = ''NoneType''"
| "type_name (PBool b) = ''bool''"
| "type_name (PInt i) = ''int''"
| "type_name (PFloat f) = ''float''"
| "type_name (PStr s) = ''str''"
| "type_name (PList xs) = ''list''"
| "type_name (PDict kvs) = ''dict''"

text \<open>\<^verbatim>\<open>len(data)\<close>: defined on strings, lists and dicts; \<^verbatim>\<open>TypeError\<close> on the rest.\<close>

fun py_len :: "pyval \<Rightarrow> pyexn + nat" where
  "py_len (PStr s) = Inr (length s)"
| "py_len (PList xs) = Inr (length xs)"
| "py_len (PDict kvs) = Inr (length kvs)"
| "py_len v = Inl (TypeError (''object of type '' @ [apostrophe] @ type_name v @ [apostrophe] @ '' has no len()''))"

text \<open>
  \<^verbatim>\<open>data[i]\<close> for the literal indices 0 and 1 of the source. A list or a string answers by
  position; a dict looks the integer up among its keys, which are strings, so the lookup
  raises \<^verbatim>\<open>KeyError(i)\<close>, whose text is the key's.
\<close>

fun digit_char :: "nat \<Rightarrow> char" where
  "digit_char n = ''0123456789'' ! (n mod 10)"

fun str_nat :: "nat \<Rightarrow> string" where
  "str_nat n = (if n < 10 then [digit_char n] else str_nat (n div 10) @ [digit_char n])"

definition str_int :: "int \<Rightarrow> string" where
  "str_int i = (if i < 0 then ''-'' @ str_nat (nat (- i)) else str_nat (nat i))"

fun py_getitem :: "pyval \<Rightarrow> nat \<Rightarrow> pyexn + pyval" where
  "py_getitem (PList xs) i =
     (if i < length xs then Inr (xs ! i) else Inl (IndexError ''list index out of range''))"
| "py_getitem (PStr s) i =
     (if i < length s then Inr (PStr [s ! i]) else Inl (IndexError ''string index out of range''))"
| "py_getitem (PDict kvs) i = Inl (KeyError (str_nat i))"
| "py_getitem v i = Inl (TypeError ([apostrophe] @ type_name v @ [apostrophe] @ '' object is not subscriptable''))"

text \<open>
  \<^verbatim>\<open>x == k\<close> for an integer literal \<open>k\<close>: numbers compare by value, with \<^verbatim>\<open>True\<close> as 1 and
  \<^verbatim>\<open>False\<close> as 0; a value that is not a number is never equal to an integer.
\<close>

fun py_eq_int :: "pyval \<Rightarrow> int \<Rightarrow> bool" where
  "py_eq_int (PInt i) k = (i = k)"
| "py_eq_int (PBool b) k = ((if b then 1 else 0) = k)"
| "py_eq_int (PFloat (Finite r)) k = (r = of_int k)"
| "py_eq_int v k = False"

fun isinstance_str :: "pyval \<Rightarrow> bool" where
  "isinstance_str (PStr s) = True"
| "isinstance_str v = False"

text \<open>
  Line 147, \<^verbatim>\<open>len(data) == 2 and data[0] == 3 and isinstance(data[1], str)\<close>, evaluated
  from the left; \<^verbatim>\<open>and\<close> stops at the first false operand, and an operand that raises
  ends the evaluation.
\<close>

definition shape_test :: "pyval \<Rightarrow> pyexn + bool" where
  "shape_test data =
     (case py_len data of
        Inl e \<Rightarrow> Inl e
      | Inr n \<Rightarrow>
          if n \<noteq> 2 then Inr False
          else (case py_getitem data 0 of
                  Inl e \<Rightarrow> Inl e
                | Inr x \<Rightarrow>
                    if \<not> py_eq_int x 3 then Inr False
                    else (case py_getitem data 1 of
                            Inl e \<Rightarrow> Inl e
                          | Inr y \<Rightarrow> Inr (isinstance_str y))))"

subsection \<open>One line of the response\<close>

text \<open>
  The body of the loop (lines 144 to 157) for one line: the line yields nothing and the loop
  goes on (\<open>Skip\<close>), or it yields a fragment that is appended to \<^verbatim>\<open>streaming_text\<close>
  (\<open>Fragment\<close>), or an exception other than \<^verbatim>\<open>JSONDecodeError\<close> leaves the loop (\<open>Raise\<close>):
  the handler of line 154 catches \<^verbatim>\<open>JSONDecodeError\<close> and nothing else.
\<close>

datatype line_result = Skip | Fragment string | Raise pyexn

definition handle_line :: "json_loads \<Rightarrow> string \<Rightarrow> line_result" where
  "handle_line loads line =
     (if line = [] then Skip
      else (case loads line of
              JSONDecodeError \<Rightarrow> Skip
            | Raises e \<Rightarrow> Raise e
            | Decoded data \<Rightarrow>
                (case shape_test data of
                   Inl e \<Rightarrow> Raise e
                 | Inr False \<Rightarrow> Skip
                 | Inr True \<Rightarrow>
                     (case py_getitem data 1 of
                        Inl e \<Rightarrow> Raise e
                      | Inr (PStr content) \<Rightarrow> Fragment content
                      | Inr v \<Rightarrow>
                          Raise (TypeError (''can only concatenate str (not \"'' @ type_name v
                                             @ ''\") to str''))))))"

text \<open>What the generator hands out for a fragment: the bare string in raw mode, else \<^verbatim>\<open>dict(text=content)\<close>.\<close>

datatype chunk = RawText string | TextDict string

fun chunk_text :: "chunk \<Rightarrow> string" where
  "chunk_text (RawText c) = c"
| "chunk_text (TextDict c) = c"

definition make_chunk :: "bool \<Rightarrow> string \<Rightarrow> chunk" where
  "make_chunk raw content = (if raw then RawText content else TextDict content)"

text \<open>
  The loop over the lines read so far, from a given \<^verbatim>\<open>streaming_text\<close>: the chunks yielded in
  order, and either the exception that left the loop or the text accumulated at the end.
\<close>

fun lines_loop :: "json_loads \<Rightarrow> bool \<Rightarrow> string list \<Rightarrow> string \<Rightarrow> chunk list \<times> (pyexn + string)" where
  "lines_loop loads raw [] streaming_text = ([], Inr streaming_text)"
| "lines_loop loads raw (line # rest) streaming_text =
     (case handle_line loads line of
        Skip \<Rightarrow> lines_loop loads raw rest streaming_text
      | Fragment content \<Rightarrow>
          (case lines_loop loads raw rest (streaming_text @ content) of
             (ys, r) \<Rightarrow> (make_chunk raw content # ys, r))
      | Raise e \<Rightarrow> ([], Inl e))"

subsection \<open>The transport and the provider's state\<close>

text \<open>
  The response of \<^verbatim>\<open>session.post\<close> as the code reads it: \<^verbatim>\<open>ok\<close>, \<^verbatim>\<open>status_code\<close>, \<^verbatim>\<open>text\<close>
  (here \<open>body_text\<close>), and the lines \<^verbatim>\<open>iter_lines\<close> delivers before the body ends, either
  because the peer closed the stream or because the transport raised a
  \<^verbatim>\<open>RequestException\<close> (with its \<^verbatim>\<open>str(e)\<close>). The call itself can raise one too.
\<close>

datatype stream_end = Exhausted | Broken string

record response =
  ok :: bool
  status_code :: int
  body_text :: string
  body_lines :: "string list"
  body_end :: stream_end

datatype post_result = PostRaises string | PostReturns response

text \<open>
  The exception classes of \<^verbatim>\<open>webscout.exceptions\<close>, which is not among the sources: they are
  taken as classes of their own, derived from \<^verbatim>\<open>Exception\<close> and from neither
  \<^verbatim>\<open>RequestException\<close> nor \<^verbatim>\<open>JSONDecodeError\<close>, each carrying its message.
\<close>

datatype provider_error =
    FailedToGenerateResponseError string
  | ProviderConnectionError string
  | InvalidResponseError string

datatype outcome = Finished | Raised provider_error

text \<open>
  The provider's state the decode touches: the dict \<^verbatim>\<open>self.last_response\<close>, and the
  conversation's history as the list of exchanges handed to it.
\<close>

record provider =
  last_response :: "string \<rightharpoonup> string"
  chat_history :: "(string \<times> string) list"

text \<open>
  Modelled from the spec: \<^verbatim>\<open>Conversation.update_chat_history\<close> (\<^verbatim>\<open>webscout.AIutel\<close> is not
  among the sources). The spec has the final text "handed to a conversation-history
  collaborator (append prompt + final text as one exchange)".
\<close>

definition update_chat_history :: "string \<Rightarrow> string \<Rightarrow> provider \<Rightarrow> provider" where
  "update_chat_history prompt response_text st =
     st\<lparr>chat_history := chat_history st @ [(prompt, response_text)]\<rparr>"

text \<open>\<^verbatim>\<open>get_message\<close>: \<^verbatim>\<open>response["text"]\<close>, a \<^verbatim>\<open>KeyError\<close> when the key is missing.\<close>

definition get_message :: "(string \<rightharpoonup> string) \<Rightarrow> pyexn + string" where
  "get_message resp =
     (case resp ''text'' of
        Some t \<Rightarrow> Inr t
      | None \<Rightarrow> Inl (KeyError ([apostrophe] @ ''text'' @ [apostrophe])))"

subsection \<open>\<^verbatim>\<open>for_stream\<close> and \<^verbatim>\<open>for_non_stream\<close>\<close>

text \<open>
  The generator \<^verbatim>\<open>for_stream\<close>, consumed to its end: the chunks it yields, how it ends, and
  the provider's state afterwards. The three handlers of lines 163 to 174 are the three
  places an error is built; \<^verbatim>\<open>json.loads\<close> being called only inside the inner \<^verbatim>\<open>try\<close>, no
  \<^verbatim>\<open>JSONDecodeError\<close> reaches the handler of line 167. The error raised at line 140 is itself
  caught at line 171 and wrapped.
\<close>

definition finalize :: "string \<Rightarrow> string \<Rightarrow> provider \<Rightarrow> outcome \<times> provider" where
  "finalize prompt streaming_text st =
     (let st1 = st\<lparr>last_response := (last_response st)(''text'' \<mapsto> streaming_text)\<rparr> in
      case get_message (last_response st1) of
        Inl e \<Rightarrow>
          (Raised (FailedToGenerateResponseError (''An unexpected error occurred: '' @ str_exn e)), st1)
      | Inr message \<Rightarrow> (Finished, update_chat_history prompt message st1))"

definition for_stream ::
  "json_loads \<Rightarrow> bool \<Rightarrow> post_result \<Rightarrow> string \<Rightarrow> provider \<Rightarrow> chunk list \<times> outcome \<times> provider" where
  "for_stream loads raw post prompt st =
     (case post of
        PostRaises e \<Rightarrow> ([], Raised (ProviderConnectionError (''Request failed: '' @ e)), st)
      | PostReturns r \<Rightarrow>
          if \<not> ok r then
            ([], Raised (FailedToGenerateResponseError
                   (''An unexpected error occurred: '' @
                    (''Request failed with status code '' @ str_int (status_code r) @ '': '' @ body_text r))),
             st)
          else
            (case lines_loop loads raw (body_lines r) [] of
               (ys, Inl e) \<Rightarrow>
                 (ys, Raised (FailedToGenerateResponseError
                        (''An unexpected error occurred: '' @ str_exn e)), st)
             | (ys, Inr streaming_text) \<Rightarrow>
                 (case body_end r of
                    Broken e \<Rightarrow> (ys, Raised (ProviderConnectionError (''Request failed: '' @ e)), st)
                  | Exhausted \<Rightarrow>
                      (case finalize prompt streaming_text st of (oc, st') \<Rightarrow> (ys, oc, st')))))"

text \<open>
  \<^verbatim>\<open>for_non_stream\<close> runs the generator to its end and returns \<^verbatim>\<open>self.last_response\<close>; an
  error of the generator passes through it. \<^verbatim>\<open>ask\<close> ends by choosing between the two
  (line 182); the preparation of the prompt before it only shapes the request, whose answer
  is the \<open>post\<close> given here.
\<close>

definition for_non_stream ::
  "json_loads \<Rightarrow> bool \<Rightarrow> post_result \<Rightarrow> string \<Rightarrow> provider
     \<Rightarrow> (provider_error + (string \<rightharpoonup> string)) \<times> provider" where
  "for_non_stream loads raw post prompt st =
     (case for_stream loads raw post prompt st of
        (ys, Finished, st') \<Rightarrow> (Inr (last_response st'), st')
      | (ys, Raised e, st') \<Rightarrow> (Inl e, st'))"

datatype ask_value =
    Generator "chunk list" outcome
  | Response "provider_error + (string \<rightharpoonup> string)"

definition ask ::
  "json_loads \<Rightarrow> post_result \<Rightarrow> string \<Rightarrow> bool \<Rightarrow> bool \<Rightarrow> provider \<Rightarrow> ask_value \<times> provider" where
  "ask loads post prompt stream raw st =
     (if stream then
        (case for_stream loads raw post prompt st of (ys, oc, st') \<Rightarrow> (Generator ys oc, st'))
      else
        (case for_non_stream loads raw post prompt st of (r, st') \<Rightarrow> (Response r, st')))"

subsection \<open>The decode as the spec words it\<close>

text \<open>
  The spec's shape of a recognised line: "a 2-element ordered sequence whose first element
  equals the literal integer 3 and whose second element is a string"; the fragment is that
  string. Equality with 3 is Python's, as in the source.
\<close>

fun recognised :: "pyval \<Rightarrow> string option" where
  "recognised (PList [x, PStr s]) = (if py_eq_int x 3 then Some s else None)"
| "recognised v = None"

text \<open>
  The fragment of a line by the spec's steps 1 to 4: none for an empty line, none for a line
  that does not parse, none for a parsed value of another shape.
\<close>

definition fragment_of :: "json_loads \<Rightarrow> string \<Rightarrow> string option" where
  "fragment_of loads line =
     (if line = [] then None
      else (case loads line of Decoded v \<Rightarrow> recognised v | _ \<Rightarrow> None))"

definition fragments :: "json_loads \<Rightarrow> string list \<Rightarrow> string list" where
  "fragments loads ls = List.map_filter (fragment_of loads) ls"

text \<open>
  \<open>sample_loads\<close> holds what \<^verbatim>\<open>json.loads\<close> does on the lines used in the examples of this
  theory: the values of \<open>sample_table\<close>; \<^verbatim>\<open>RecursionError\<close> on \<open>deep_line\<close>, a line of a
  hundred thousand opening brackets; a line that is not listed stands for one the decoder
  rejects with \<^verbatim>\<open>JSONDecodeError\<close>, as it rejects \<^verbatim>\<open>not json\<close>.
\<close>

definition sample_table :: "(string \<times> pyval) list" where
  "sample_table =
     [(''[3,\"Hello\"]'', PList [PInt 3, PStr ''Hello'']),
      (''[3,\" world\"]'', PList [PInt 3, PStr '' world'']),
      (''[5,\"ignored\"]'', PList [PInt 5, PStr ''ignored'']),
      (''[3,7]'', PList [PInt 3, PInt 7]),
      (''[3.0,\"x\"]'', PList [PFloat (Finite 3), PStr ''x'']),
      (''\"ab\"'', PStr ''ab''),
      (''{\"a\":1}'', PDict [(''a'', PInt 1)]),
      (''{\"a\":1,\"b\":2}'', PDict [(''a'', PInt 1), (''b'', PInt 2)]),
      (''5'', PInt 5),
      (''true'', PBool True),
      (''null'', PNone)]"

definition deep_line :: string where
  "deep_line = replicate 100000 (CHR ''['')"

definition sample_loads :: json_loads where
  "sample_loads line =
     (if line = deep_line then
        Raises (RecursionError
          ''maximum recursion depth exceeded while decoding a JSON array from a unicode string'')
      else (case map_of sample_table line of
              Some v \<Rightarrow> Decoded v
            | None \<Rightarrow> JSONDecodeError))"

definition sample_response :: "string list \<Rightarrow> stream_end \<Rightarrow> response" where
  "sample_response ls e =
     \<lparr>ok = True, status_code = 200, body_text = [], body_lines = ls, body_end = e\<rparr>"

definition fresh_provider :: provider where
  "fresh_provider = \<lparr>last_response = Map.empty, chat_history = []\<rparr>"

section \<open>Properties of the severity levels\<close>

lemma long_heads_eq:
  "long_heads = [(0x53, 0x53), (0x2BC, 0x4E), (0x4A, 0x30C), (0x48, 0x331), (0x54, 0x308), (0x57, 0x30A),
     (0x59, 0x30A), (0x41, 0x2BE), (0x46, 0x46), (0x46, 0x49), (0x46, 0x4C), (0x46, 0x46), (0x46, 0x46),
     (0x53, 0x54), (0x53, 0x54)]"
  by (simp add: long_heads_def special_casing_def)

lemma upper_cp_capital:
  assumes "is_capital d"
  shows "upper_cp c = [d] \<longleftrightarrow>
           c = d \<or> c = d + 0x20 \<or> (d = 0x49 \<and> c = 0x131) \<or> (d = 0x53 \<and> c = 0x17F)"
proof (cases "0x61 \<le> c \<and> c \<le> 0x7A")
  case True
  with assms show ?thesis by (auto simp: upper_cp_def is_capital_def)
next
  case False
  show ?thesis
  proof (cases "map_of special_casing c")
    case None
    then have "c \<noteq> 0x131" and "c \<noteq> 0x17F"
      by (auto simp: special_casing_def)
    with None False assms show ?thesis
      by (auto simp: upper_cp_def is_capital_def)
  next
    case (Some u)
    then have "(c, u) \<in> set special_casing"
      by (rule map_of_SomeD)
    with Some False assms show ?thesis
      by (auto simp: upper_cp_def is_capital_def special_casing_def)
  qed
qed

lemma upper_cp_shape:
  "(\<exists>x. upper_cp c = [x]) \<or> (\<exists>x y zs. upper_cp c = x # y # zs \<and> (x, y) \<in> set long_heads)"
proof (cases "map_of special_casing c")
  case None
  then show ?thesis by (simp add: upper_cp_def)
next
  case (Some u)
  then have "(c, u) \<in> set special_casing"
    by (rule map_of_SomeD)
  then have "(\<exists>x. u = [x]) \<or> (\<exists>x y zs. u = x # y # zs \<and> (x, y) \<in> set long_heads)"
    unfolding long_heads_eq by (auto simp: special_casing_def)
  with Some show ?thesis by (auto simp: upper_cp_def)
qed

lemma upper_eq_spells_upper:
  "list_all is_capital name \<Longrightarrow> free_of_long_heads name \<Longrightarrow>
   upper s = name \<longleftrightarrow> spells_upper s name"
proof (induction s arbitrary: name)
  case Nil
  then show ?case by (auto simp: upper_def spells_upper_def)
next
  case (Cons c s)
  show ?case
  proof (cases name)
    case Nil
    have "upper_cp c \<noteq> []"
      using upper_cp_shape [of c] by auto
    with Nil show ?thesis by (simp add: upper_def spells_upper_def)
  next
    case name: (Cons d ds)
    with Cons.prems have d: "is_capital d" and ds: "list_all is_capital ds" "free_of_long_heads ds"
      by (cases ds; simp)+
    from upper_cp_shape [of c] show ?thesis
    proof
      assume "\<exists>x. upper_cp c = [x]"
      then obtain x where x: "upper_cp c = [x]" ..
      have "upper (c # s) = name \<longleftrightarrow> x = d \<and> upper s = ds"
        using x name by (simp add: upper_def)
      also have "\<dots> \<longleftrightarrow> upper_cp c = [d] \<and> spells_upper s ds"
        using x Cons.IH [OF ds] by auto
      also have "\<dots> \<longleftrightarrow> spells_upper (c # s) name"
        using name upper_cp_capital [OF d, of c] by (simp add: spells_upper_def)
      finally show ?thesis .
    next
      assume "\<exists>x y zs. upper_cp c = x # y # zs \<and> (x, y) \<in> set long_heads"
      then obtain x y zs where long: "upper_cp c = x # y # zs" "(x, y) \<in> set long_heads"
        by blast
      have "upper (c # s) \<noteq> name"
      proof
        assume "upper (c # s) = name"
        with long(1) have "name = x # y # (zs @ upper s)"
          by (simp add: upper_def)
        with Cons.prems(2) long(2) show False by simp
      qed
      moreover have "\<not> spells_upper (c # s) name"
        using name upper_cp_capital [OF d, of c] long(1) by (auto simp: spells_upper_def)
      ultimately show ?thesis by simp
    qed
  qed
qed

lemma spells_imp_spells_upper: "spells s name \<Longrightarrow> spells_upper s name"
  unfolding spells_def spells_upper_def by (erule list_all2_mono) auto

lemma spells_upper_length: "spells_upper s name \<Longrightarrow> length s = length name"
  unfolding spells_upper_def by (rule list_all2_lengthD)

lemma names_plain:
  "list_all is_capital (str_of ''DEBUG'') \<and> free_of_long_heads (str_of ''DEBUG'')"
  "list_all is_capital (str_of ''INFO'') \<and> free_of_long_heads (str_of ''INFO'')"
  "list_all is_capital (str_of ''WARNING'') \<and> free_of_long_heads (str_of ''WARNING'')"
  "list_all is_capital (str_of ''ERROR'') \<and> free_of_long_heads (str_of ''ERROR'')"
  "list_all is_capital (str_of ''CRITICAL'') \<and> free_of_long_heads (str_of ''CRITICAL'')"
  by (simp_all add: str_of_def is_capital_def long_heads_eq)

lemma upper_is_name:
  "upper s = str_of ''DEBUG'' \<longleftrightarrow> spells_upper s (str_of ''DEBUG'')"
  "upper s = str_of ''INFO'' \<longleftrightarrow> spells_upper s (str_of ''INFO'')"
  "upper s = str_of ''WARNING'' \<longleftrightarrow> spells_upper s (str_of ''WARNING'')"
  "upper s = str_of ''ERROR'' \<longleftrightarrow> spells_upper s (str_of ''ERROR'')"
  "upper s = str_of ''CRITICAL'' \<longleftrightarrow> spells_upper s (str_of ''CRITICAL'')"
  by (simp_all add: upper_eq_spells_upper names_plain)

lemma get_level_if:
  "get_level s =
     (if spells_upper s (str_of ''DEBUG'') then Inr DEBUG
      else if spells_upper s (str_of ''INFO'') then Inr INFO
      else if spells_upper s (str_of ''WARNING'') then Inr WARNING
      else if spells_upper s (str_of ''ERROR'') then Inr ERROR
      else if spells_upper s (str_of ''CRITICAL'') then Inr CRITICAL
      else Inl (ValueError (str_of ''Invalid log level: '' @ s)))"
  unfolding get_level_def members_def
  by (simp add: upper_is_name [symmetric])

lemma names_differ:
  "str_of ''INFO'' \<noteq> str_of ''DEBUG''" "str_of ''WARNING'' \<noteq> str_of ''DEBUG''" "str_of ''WARNING'' \<noteq> str_of ''INFO''"
  "str_of ''ERROR'' \<noteq> str_of ''DEBUG''" "str_of ''ERROR'' \<noteq> str_of ''INFO''" "str_of ''ERROR'' \<noteq> str_of ''WARNING''"
  "str_of ''CRITICAL'' \<noteq> str_of ''DEBUG''" "str_of ''CRITICAL'' \<noteq> str_of ''INFO''"
  "str_of ''CRITICAL'' \<noteq> str_of ''WARNING''" "str_of ''CRITICAL'' \<noteq> str_of ''ERROR''"
  by (simp_all add: str_of_def)

text \<open>
  C8 (amended). For each of the five names DEBUG, INFO, WARNING, ERROR, CRITICAL, written in
  any letter case, where the dotless i (U+0131) also counts as a small I as it does for
  \<^verbatim>\<open>upper()\<close>, \<open>get_level\<close> returns the level of that name, whose value is 10, 20, 30, 40,
  50; for every other string it fails with the error that reports the text as given. A
  string that spells a name in ASCII letters spells it in this wider sense too.
\<close>

theorem get_level_by_name:
  "(spells_upper s (str_of ''DEBUG'') \<longrightarrow> get_level s = Inr DEBUG \<and> level_value DEBUG = 10) \<and>
   (spells_upper s (str_of ''INFO'') \<longrightarrow> get_level s = Inr INFO \<and> level_value INFO = 20) \<and>
   (spells_upper s (str_of ''WARNING'') \<longrightarrow> get_level s = Inr WARNING \<and> level_value WARNING = 30) \<and>
   (spells_upper s (str_of ''ERROR'') \<longrightarrow> get_level s = Inr ERROR \<and> level_value ERROR = 40) \<and>
   (spells_upper s (str_of ''CRITICAL'') \<longrightarrow> get_level s = Inr CRITICAL \<and> level_value CRITICAL = 50) \<and>
   (\<not> spells_upper s (str_of ''DEBUG'') \<and> \<not> spells_upper s (str_of ''INFO'') \<and>
    \<not> spells_upper s (str_of ''WARNING'') \<and> \<not> spells_upper s (str_of ''ERROR'') \<and>
    \<not> spells_upper s (str_of ''CRITICAL'')
      \<longrightarrow> get_level s = Inl (ValueError (str_of ''Invalid log level: '' @ s))) \<and>
   (\<forall>name. spells s name \<longrightarrow> spells_upper s name)"
proof -
  have "get_level s = Inr l" if "(name, l) \<in> set members" "spells_upper s name" for name l
  proof -
    from that have "upper s = name"
      using upper_is_name [of s] by (auto simp: members_def)
    with that(1) show ?thesis
      using names_differ by (auto simp: get_level_def members_def)
  qed
  then show ?thesis
    by (auto simp: members_def get_level_if spells_imp_spells_upper)
qed

theorem get_level_by_name_witness:
  "get_level (str_of ''debug'') = Inr DEBUG \<and> get_level (str_of ''Info'') = Inr INFO \<and>
   get_level (str_of ''wArNiNg'') = Inr WARNING \<and> get_level (str_of ''ERROR'') = Inr ERROR \<and>
   get_level (str_of ''critical'') = Inr CRITICAL \<and>
   get_level [0x131, 0x6E, 0x66, 0x6F] = Inr INFO \<and>
   get_level (str_of ''warn'') = Inl (ValueError (str_of ''Invalid log level: warn''))"
  using get_level_by_name [of "str_of ''debug''"] get_level_by_name [of "str_of ''Info''"]
    get_level_by_name [of "str_of ''wArNiNg''"] get_level_by_name [of "str_of ''ERROR''"]
    get_level_by_name [of "str_of ''critical''"] get_level_by_name [of "[0x131, 0x6E, 0x66, 0x6F]"]
    get_level_by_name [of "str_of ''warn''"]
  by (simp add: spells_upper_def str_of_def)

text \<open>
  C8 as claimed fails: the string of the dotless i followed by \<open>nfo\<close> spells none of the
  five names in ASCII letters of either case, and \<open>get_level\<close> returns INFO for it.
\<close>

theorem get_level_other_string_counterexample:
  "\<not> spells [0x131, 0x6E, 0x66, 0x6F] (str_of ''DEBUG'') \<and>
   \<not> spells [0x131, 0x6E, 0x66, 0x6F] (str_of ''INFO'') \<and>
   \<not> spells [0x131, 0x6E, 0x66, 0x6F] (str_of ''WARNING'') \<and>
   \<not> spells [0x131, 0x6E, 0x66, 0x6F] (str_of ''ERROR'') \<and>
   \<not> spells [0x131, 0x6E, 0x66, 0x6F] (str_of ''CRITICAL'') \<and>
   get_level [0x131, 0x6E, 0x66, 0x6F] = Inr INFO"
  by (simp add: spells_def str_of_def get_level_def members_def upper_def upper_cp_def special_casing_def)

lemma level_value_inj: "level_value a = level_value b \<longleftrightarrow> a = b"
  by (cases a; cases b) simp_all

lemma less_than_Level: "less_than a (Level b) = Inr (level_value a < level_value b)"
  by (simp add: less_than_def dunder_lt_def)

text \<open>
  C9. Between two levels, less-than is the order of the values: it is irreflexive,
  transitive and asymmetric, and for each pair exactly one of less, equal, greater holds.
  With a right operand that is not a level, \<open>__lt__\<close> gives \<open>NotImplemented\<close> and the
  comparison is rejected with an error instead of an answer.
\<close>

theorem level_order:
  "less_than a (Level b) = Inr (level_value a < level_value b) \<and>
   greater_than a b = Inr (level_value a > level_value b) \<and>
   less_than a (Level a) = Inr False \<and>
   (less_than a (Level b) = Inr True \<and> less_than b (Level c) = Inr True \<longrightarrow> less_than a (Level c) = Inr True) \<and>
   (less_than a (Level b) = Inr True \<longrightarrow> less_than b (Level a) = Inr False) \<and>
   ((less_than a (Level b) = Inr True \<and> a \<noteq> b \<and> greater_than a b = Inr False) \<or>
    (less_than a (Level b) = Inr False \<and> a = b \<and> greater_than a b = Inr False) \<or>
    (less_than a (Level b) = Inr False \<and> a \<noteq> b \<and> greater_than a b = Inr True)) \<and>
   ((\<forall>l. other \<noteq> Level l) \<longrightarrow> dunder_lt a other = NotImplemented \<and> less_than a other = Inl UnsupportedOperands)"
proof -
  have "level_value a < level_value b \<or> a = b \<or> level_value b < level_value a"
    using level_value_inj [of a b] by linarith
  moreover have "(\<forall>l. other \<noteq> Level l) \<longrightarrow> dunder_lt a other = NotImplemented \<and> less_than a other = Inl UnsupportedOperands"
    by (cases other) (simp_all add: less_than_def dunder_lt_def)
  ultimately show ?thesis
    by (auto simp: less_than_Level greater_than_def)
qed

theorem level_order_witness:
  "less_than DEBUG (Level WARNING) = Inr True \<and> less_than WARNING (Level CRITICAL) = Inr True \<and>
   less_than DEBUG (Level CRITICAL) = Inr True \<and> less_than WARNING (Level DEBUG) = Inr False \<and>
   greater_than DEBUG WARNING = Inr False \<and> DEBUG \<noteq> WARNING \<and>
   (\<forall>l. IntObj 10 \<noteq> Level l) \<and> less_than DEBUG (IntObj 10) = Inl UnsupportedOperands"
  using level_order [of DEBUG WARNING CRITICAL "IntObj 10"]
  by (simp add: less_than_def dunder_lt_def greater_than_def)

section \<open>Properties of the line loop\<close>

declare str_nat.simps [simp del]

text \<open>The loop's fragment for a line is the spec's.\<close>

lemma handle_line_fragment_of:
  "handle_line loads line = Fragment c \<longleftrightarrow> fragment_of loads line = Some c"
proof (cases "line = []")
  case True
  then show ?thesis by (simp add: handle_line_def fragment_of_def)
next
  case False
  show ?thesis
  proof (cases "loads line")
    case JSONDecodeError
    with False show ?thesis by (simp add: handle_line_def fragment_of_def)
  next
    case (Raises e)
    with False show ?thesis by (simp add: handle_line_def fragment_of_def)
  next
    case (Decoded v)
    have "(case shape_test v of Inl e \<Rightarrow> Raise e | Inr False \<Rightarrow> Skip
            | Inr True \<Rightarrow> (case py_getitem v 1 of Inl e \<Rightarrow> Raise e | Inr (PStr content) \<Rightarrow> Fragment content
                 | Inr w \<Rightarrow> Raise (TypeError (''can only concatenate str (not \"'' @ type_name w @ ''\") to str''))))
          = Fragment c \<longleftrightarrow> recognised v = Some c"
      by (induction v rule: recognised.induct) (auto simp: shape_test_def split: sum.splits bool.splits pyval.splits)
    with False Decoded show ?thesis by (simp add: handle_line_def fragment_of_def)
  qed
qed


text \<open>What a line that parses does, by the kind of the parsed value.\<close>

lemma handle_line_value:
  assumes "line \<noteq> []" and "loads line = Decoded v"
  shows "handle_line loads line =
     (case v of
        PList xs \<Rightarrow> (case recognised v of Some c \<Rightarrow> Fragment c | None \<Rightarrow> Skip)
      | PStr s \<Rightarrow> Skip
      | PDict kvs \<Rightarrow> if length kvs = 2 then Raise (KeyError ''0'') else Skip
      | _ \<Rightarrow> Raise (TypeError (''object of type '' @ [apostrophe] @ type_name v @ [apostrophe] @ '' has no len()'')))"
proof (cases v)
  case (PList xs)
  show ?thesis
  proof (cases "recognised v")
    case None
    have "shape_test v = Inr False"
      using None PList
      by (induction v rule: recognised.induct) (auto simp: shape_test_def split: if_splits)
    with assms None PList show ?thesis by (simp add: handle_line_def)
  next
    case (Some c)
    then have "handle_line loads line = Fragment c"
      using assms by (simp add: handle_line_fragment_of fragment_of_def)
    with Some PList show ?thesis by simp
  qed
next
  case (PStr s)
  then have "shape_test v = Inr False"
    by (auto simp: shape_test_def)
  with assms PStr show ?thesis by (simp add: handle_line_def)
next
  case (PDict kvs)
  then have "shape_test v = (if length kvs = 2 then Inl (KeyError ''0'') else Inr False)"
    by (simp add: shape_test_def str_nat.simps)
  with assms PDict show ?thesis by (simp add: handle_line_def)
qed (use assms in \<open>simp_all add: handle_line_def shape_test_def\<close>)

lemma lines_loop_fragments:
  "\<forall>l\<in>set ls. \<forall>e. handle_line loads l \<noteq> Raise e \<Longrightarrow>
   lines_loop loads raw ls t = (map (make_chunk raw) (fragments loads ls), Inr (t @ concat (fragments loads ls)))"
proof (induction ls arbitrary: t)
  case Nil
  then show ?case by (simp add: fragments_def List.map_filter_simps)
next
  case (Cons l ls)
  then have IH: "\<And>t. lines_loop loads raw ls t =
      (map (make_chunk raw) (fragments loads ls), Inr (t @ concat (fragments loads ls)))"
    by simp
  show ?case
  proof (cases "handle_line loads l")
    case Skip
    then have "fragment_of loads l = None"
      using handle_line_fragment_of [of loads l] by (cases "fragment_of loads l") auto
    with Skip IH show ?thesis by (simp add: fragments_def List.map_filter_simps)
  next
    case (Fragment c)
    then have "fragment_of loads l = Some c"
      by (simp add: handle_line_fragment_of)
    with Fragment IH show ?thesis by (simp add: fragments_def List.map_filter_simps)
  next
    case (Raise e)
    with Cons.prems show ?thesis by simp
  qed
qed

lemma lines_loop_text:
  "lines_loop loads raw ls t = (ys, Inr t') \<Longrightarrow> t' = t @ concat (map chunk_text ys)"
proof (induction ls arbitrary: t ys)
  case Nil
  then show ?case by simp
next
  case (Cons l ls)
  show ?case
  proof (cases "handle_line loads l")
    case Skip
    with Cons show ?thesis by simp
  next
    case (Fragment c)
    obtain zs r where rest: "lines_loop loads raw ls (t @ c) = (zs, r)"
      by (cases "lines_loop loads raw ls (t @ c)")
    with Fragment Cons.prems have "ys = make_chunk raw c # zs" and "r = Inr t'"
      by simp_all
    with rest Cons.IH [of "t @ c" zs] show ?thesis
      by (simp add: make_chunk_def)
  next
    case (Raise e)
    with Cons.prems show ?thesis by simp
  qed
qed

lemma lines_loop_skip_line:
  "handle_line loads l = Skip \<Longrightarrow>
   lines_loop loads raw (pre @ l # post) t = lines_loop loads raw (pre @ post) t"
  by (induction pre arbitrary: t) (simp_all split: line_result.splits)

lemma chunk_text_make_chunk: "chunk_text (make_chunk raw c) = c"
  by (simp add: make_chunk_def)

lemma finalize_finishes:
  "finalize prompt t st =
     (Finished, st\<lparr>last_response := (last_response st)(''text'' \<mapsto> t),
                   chat_history := chat_history st @ [(prompt, t)]\<rparr>)"
  by (simp add: finalize_def get_message_def update_chat_history_def Let_def)

text \<open>
  The provider's state after \<open>for_stream\<close>: when the generator finishes, the text of the
  chunks it yielded, joined in order, has been stored and handed to the history once; when
  it raises, the state is untouched.
\<close>

lemma for_stream_final_state:
  assumes "for_stream loads raw post prompt st = (ys, oc, st')"
  shows "(oc = Finished \<longrightarrow>
            st' = st\<lparr>last_response := (last_response st)(''text'' \<mapsto> concat (map chunk_text ys)),
                     chat_history := chat_history st @ [(prompt, concat (map chunk_text ys))]\<rparr>) \<and>
         (\<forall>e. oc = Raised e \<longrightarrow> st' = st)"
proof (cases post)
  case (PostRaises e)
  with assms show ?thesis by (auto simp: for_stream_def)
next
  case (PostReturns q)
  show ?thesis
  proof (cases "ok q")
    case False
    with assms PostReturns show ?thesis by (auto simp: for_stream_def)
  next
    case True
    obtain zs res where loop: "lines_loop loads raw (body_lines q) [] = (zs, res)"
      by (cases "lines_loop loads raw (body_lines q) []")
    show ?thesis
    proof (cases res)
      case (Inl e)
      with assms PostReturns True loop show ?thesis by (auto simp: for_stream_def)
    next
      case (Inr t)
      with loop have t: "t = concat (map chunk_text zs)"
        using lines_loop_text [of loads raw "body_lines q" "[]" zs t] by simp
      show ?thesis
        using assms PostReturns True loop Inr t
        by (cases "body_end q") (auto simp: for_stream_def finalize_finishes)
    qed
  qed
qed

text \<open>Two runs on the sample lines, for the examples below.\<close>

lemma sample_loads_short:
  "length line < 100 \<Longrightarrow>
   sample_loads line = (case map_of sample_table line of Some v \<Rightarrow> Decoded v | None \<Rightarrow> JSONDecodeError)"
  by (auto simp: sample_loads_def deep_line_def)

lemma sample_loads_deep:
  "deep_line \<noteq> [] \<and>
   sample_loads deep_line =
     Raises (RecursionError
       ''maximum recursion depth exceeded while decoding a JSON array from a unicode string'')"
  by (simp add: sample_loads_def deep_line_def)

lemma sample_run:
  "for_stream sample_loads raw
     (PostReturns (sample_response [''[3,\"Hello\"]'', ''[5,\"ignored\"]'', ''[3,\" world\"]''] Exhausted))
     prompt st =
     ([make_chunk raw ''Hello'', make_chunk raw '' world''], Finished,
      st\<lparr>last_response := (last_response st)(''text'' \<mapsto> ''Hello world''),
         chat_history := chat_history st @ [(prompt, ''Hello world'')]\<rparr>)"
  by (simp add: for_stream_def sample_response_def sample_loads_short sample_table_def handle_line_def shape_test_def
      finalize_finishes)

lemma sample_broken_run:
  "for_stream sample_loads raw
     (PostReturns (sample_response [''[3,\"Hello\"]''] (Broken ''Connection reset''))) prompt st =
     ([make_chunk raw ''Hello''], Raised (ProviderConnectionError ''Request failed: Connection reset''), st)"
  by (simp add: for_stream_def sample_response_def sample_loads_short sample_table_def handle_line_def shape_test_def)

section \<open>The claims on the decoder\<close>

text \<open>
  C1. On the lines \<^verbatim>\<open>[3,"Hello"]\<close>, the empty line, \<^verbatim>\<open>not json\<close> and \<^verbatim>\<open>[3," world"]\<close>, with
  \<^verbatim>\<open>json.loads\<close> reading them as the standard decoder does, the decode in normal mode
  yields the record with text \<open>Hello\<close> and then the one with text \<open> world\<close> and nothing
  else, and leaves \<open>Hello world\<close> as the final text; in raw mode it yields the two bare
  strings.
\<close>

theorem decode_hello_world:
  assumes "loads ''[3,\"Hello\"]'' = Decoded (PList [PInt 3, PStr ''Hello''])"
    and "loads ''not json'' = JSONDecodeError"
    and "loads ''[3,\" world\"]'' = Decoded (PList [PInt 3, PStr '' world''])"
    and "ok r"
    and "body_lines r = [''[3,\"Hello\"]'', '''', ''not json'', ''[3,\" world\"]'']"
    and "body_end r = Exhausted"
  shows "for_stream loads False (PostReturns r) prompt st =
           ([TextDict ''Hello'', TextDict '' world''], Finished,
            st\<lparr>last_response := (last_response st)(''text'' \<mapsto> ''Hello world''),
               chat_history := chat_history st @ [(prompt, ''Hello world'')]\<rparr>) \<and>
         for_stream loads True (PostReturns r) prompt st =
           ([RawText ''Hello'', RawText '' world''], Finished,
            st\<lparr>last_response := (last_response st)(''text'' \<mapsto> ''Hello world''),
               chat_history := chat_history st @ [(prompt, ''Hello world'')]\<rparr>)"
proof -
  have h1: "handle_line loads ''[3,\"Hello\"]'' = Fragment ''Hello''"
    using assms(1) by (simp add: handle_line_fragment_of fragment_of_def)
  have h2: "handle_line loads '''' = Skip"
    by (simp add: handle_line_def)
  have h3: "handle_line loads ''not json'' = Skip"
    using assms(2) by (simp add: handle_line_def)
  have h4: "handle_line loads ''[3,\" world\"]'' = Fragment '' world''"
    using assms(3) by (simp add: handle_line_fragment_of fragment_of_def)
  have loop: "lines_loop loads raw (body_lines r) [] =
      ([make_chunk raw ''Hello'', make_chunk raw '' world''], Inr ''Hello world'')" for raw
    by (simp add: assms(5) h1 h2 h3 h4)
  show ?thesis
    using assms(4,6) by (simp add: for_stream_def loop finalize_finishes make_chunk_def)
qed

theorem decode_hello_world_witness:
  "for_stream sample_loads False
     (PostReturns (sample_response [''[3,\"Hello\"]'', '''', ''not json'', ''[3,\" world\"]''] Exhausted))
     ''Hi'' fresh_provider =
     ([TextDict ''Hello'', TextDict '' world''], Finished,
      \<lparr>last_response = [''text'' \<mapsto> ''Hello world''], chat_history = [(''Hi'', ''Hello world'')]\<rparr>) \<and>
   for_stream sample_loads True
     (PostReturns (sample_response [''[3,\"Hello\"]'', '''', ''not json'', ''[3,\" world\"]''] Exhausted))
     ''Hi'' fresh_provider =
     ([RawText ''Hello'', RawText '' world''], Finished,
      \<lparr>last_response = [''text'' \<mapsto> ''Hello world''], chat_history = [(''Hi'', ''Hello world'')]\<rparr>)"
  using decode_hello_world [of sample_loads
      "sample_response [''[3,\"Hello\"]'', '''', ''not json'', ''[3,\" world\"]''] Exhausted" "''Hi''" fresh_provider]
  by (simp add: sample_loads_short sample_table_def sample_response_def fresh_provider_def)

text \<open>
  C2 (as the code has it). The claim has every parsed line of another shape skipped without
  an error. The loop does skip a list, a string, and an object that has not exactly two
  keys (\<open>handle_line_value\<close>). A first line that parses to a number, a boolean or null
  makes \<^verbatim>\<open>len(data)\<close> raise, and one that parses to an object of two keys makes \<^verbatim>\<open>data[0]\<close>
  raise: although these are not recognised shapes, the decode ends at once with
  \<^verbatim>\<open>FailedToGenerateResponseError\<close>, yields nothing and leaves the state as it was.
\<close>

theorem unrecognised_line_raises:
  assumes "line \<noteq> []" and "loads line = Decoded v" and "ok r" and "body_lines r = line # post"
    and "v = PNone \<or> (\<exists>b. v = PBool b) \<or> (\<exists>i. v = PInt i) \<or> (\<exists>f. v = PFloat f) \<or> (\<exists>a b. v = PDict [a, b])"
  shows "recognised v = None \<and>
         for_stream loads raw (PostReturns r) prompt st =
           ([], Raised (FailedToGenerateResponseError
                  (''An unexpected error occurred: '' @
                   (case v of
                      PDict kvs \<Rightarrow> ''0''
                    | _ \<Rightarrow> ''object of type '' @ [apostrophe] @ type_name v @ [apostrophe] @ '' has no len()''))),
            st)"
proof -
  from assms(5) have rec: "recognised v = None"
    by auto
  from assms(5) have "handle_line loads line =
      Raise (case v of PDict kvs \<Rightarrow> KeyError ''0''
             | _ \<Rightarrow> TypeError (''object of type '' @ [apostrophe] @ type_name v @ [apostrophe] @ '' has no len()''))"
    using handle_line_value [of line loads v] assms(1,2) by auto
  with assms(3,4) assms(5) have "for_stream loads raw (PostReturns r) prompt st =
           ([], Raised (FailedToGenerateResponseError
                  (''An unexpected error occurred: '' @
                   (case v of
                      PDict kvs \<Rightarrow> ''0''
                    | _ \<Rightarrow> ''object of type '' @ [apostrophe] @ type_name v @ [apostrophe] @ '' has no len()''))),
            st)"
    by (auto simp: for_stream_def)
  with rec show ?thesis by simp
qed

theorem unrecognised_line_raises_witness:
  "for_stream sample_loads False
     (PostReturns (sample_response [''5'', ''[3,\"Hello\"]''] Exhausted)) ''Hi'' fresh_provider =
     ([], Raised (FailedToGenerateResponseError
            ''An unexpected error occurred: object of type 'int' has no len()''), fresh_provider) \<and>
   for_stream sample_loads False
     (PostReturns (sample_response [''{\"a\":1,\"b\":2}'', ''[3,\"Hello\"]''] Exhausted)) ''Hi'' fresh_provider =
     ([], Raised (FailedToGenerateResponseError ''An unexpected error occurred: 0''), fresh_provider)"
  using unrecognised_line_raises [of "''5''" sample_loads "PInt 5"
      "sample_response [''5'', ''[3,\"Hello\"]''] Exhausted" "[''[3,\"Hello\"]'']" False "''Hi''" fresh_provider]
    unrecognised_line_raises [of "''{\"a\":1,\"b\":2}''" sample_loads "PDict [(''a'', PInt 1), (''b'', PInt 2)]"
      "sample_response [''{\"a\":1,\"b\":2}'', ''[3,\"Hello\"]''] Exhausted" "[''[3,\"Hello\"]'']" False "''Hi''" fresh_provider]
  by (simp add: sample_loads_short sample_table_def sample_response_def apostrophe_def)

text \<open>
  C3 (amended). A non-empty line on which \<^verbatim>\<open>json.loads\<close> raises \<^verbatim>\<open>JSONDecodeError\<close> is
  skipped and the decode goes on. The line gives no fragment and no error: the whole decode
  (chunks, ending and state) is the decode of the lines without it. When the response is ok,
  the stream ends normally and no other line raises, the decode yields the fragments of the
  lines before the line followed by the fragments of the lines after it, finishes, and leaves
  their concatenation as the final text.
\<close>

theorem undecodable_line_skipped:
  assumes "line \<noteq> []" and "loads line = JSONDecodeError" and "body_lines r = pre @ line # post"
  shows "handle_line loads line = Skip \<and>
         for_stream loads raw (PostReturns r) prompt st =
           for_stream loads raw (PostReturns (r\<lparr>body_lines := pre @ post\<rparr>)) prompt st \<and>
         (ok r \<and> body_end r = Exhausted \<and>
            (\<forall>l\<in>set (pre @ post). \<forall>e. handle_line loads l \<noteq> Raise e) \<longrightarrow>
          for_stream loads raw (PostReturns r) prompt st =
            (map (make_chunk raw) (fragments loads pre @ fragments loads post), Finished,
             st\<lparr>last_response :=
                  (last_response st)(''text'' \<mapsto> concat (fragments loads pre @ fragments loads post)),
                chat_history :=
                  chat_history st @ [(prompt, concat (fragments loads pre @ fragments loads post))]\<rparr>))"
proof -
  have skip: "handle_line loads line = Skip"
    using assms(1,2) by (simp add: handle_line_def)
  have "fragment_of loads line = None"
    using assms(1,2) by (simp add: fragment_of_def)
  then have frs: "fragments loads (body_lines r) = fragments loads pre @ fragments loads post"
    by (simp add: assms(3) fragments_def List.map_filter_def)
  have "lines_loop loads raw (body_lines r) [] = lines_loop loads raw (pre @ post) []"
    using lines_loop_skip_line [OF skip] assms(3) by simp
  then have same: "for_stream loads raw (PostReturns r) prompt st =
      for_stream loads raw (PostReturns (r\<lparr>body_lines := pre @ post\<rparr>)) prompt st"
    by (simp add: for_stream_def)
  have "for_stream loads raw (PostReturns r) prompt st =
      (map (make_chunk raw) (fragments loads pre @ fragments loads post), Finished,
       st\<lparr>last_response :=
            (last_response st)(''text'' \<mapsto> concat (fragments loads pre @ fragments loads post)),
          chat_history :=
            chat_history st @ [(prompt, concat (fragments loads pre @ fragments loads post))]\<rparr>)"
    if "ok r" "body_end r = Exhausted" "\<forall>l\<in>set (pre @ post). \<forall>e. handle_line loads l \<noteq> Raise e"
  proof -
    from that(3) skip assms(3) have "\<forall>l\<in>set (body_lines r). \<forall>e. handle_line loads l \<noteq> Raise e"
      by auto
    from lines_loop_fragments [OF this, of raw "[]"] that(1,2) show ?thesis
      by (simp add: for_stream_def finalize_finishes frs)
  qed
  with skip same show ?thesis by blast
qed

theorem undecodable_line_skipped_witness:
  "handle_line sample_loads ''not json'' = Skip \<and>
   for_stream sample_loads False
     (PostReturns (sample_response [''[3,\"Hello\"]'', ''not json'', ''[3,\" world\"]''] Exhausted))
     ''Hi'' fresh_provider =
   for_stream sample_loads False
     (PostReturns (sample_response [''[3,\"Hello\"]'', ''[3,\" world\"]''] Exhausted))
     ''Hi'' fresh_provider \<and>
   for_stream sample_loads False
     (PostReturns (sample_response [''[3,\"Hello\"]'', ''not json'', ''[3,\" world\"]''] Exhausted))
     ''Hi'' fresh_provider =
     ([TextDict ''Hello'', TextDict '' world''], Finished,
      \<lparr>last_response = [''text'' \<mapsto> ''Hello world''], chat_history = [(''Hi'', ''Hello world'')]\<rparr>)"
proof -
  have lines: "\<forall>l\<in>set ([''[3,\"Hello\"]''] @ [''[3,\" world\"]'']). \<forall>e. handle_line sample_loads l \<noteq> Raise e"
    by (simp add: sample_loads_short sample_table_def handle_line_def shape_test_def)
  have frs: "fragments sample_loads [''[3,\"Hello\"]''] = [''Hello'']"
    "fragments sample_loads [''[3,\" world\"]''] = ['' world'']"
    by (simp_all add: fragments_def List.map_filter_def fragment_of_def sample_loads_short sample_table_def)
  let ?with = "sample_response [''[3,\"Hello\"]'', ''not json'', ''[3,\" world\"]''] Exhausted"
  have hyps: "''not json'' \<noteq> []" "sample_loads ''not json'' = JSONDecodeError"
    "body_lines ?with = [''[3,\"Hello\"]''] @ ''not json'' # [''[3,\" world\"]'']"
    "ok ?with" "body_end ?with = Exhausted"
    by (simp_all add: sample_loads_short sample_table_def sample_response_def)
  note inst = undecodable_line_skipped [of "''not json''" sample_loads ?with
      "[''[3,\"Hello\"]'']" "[''[3,\" world\"]'']" False "''Hi''" fresh_provider, OF hyps(1,2,3)]
  from inst have skip: "handle_line sample_loads ''not json'' = Skip"
    by (rule conjunct1)
  from inst have same: "for_stream sample_loads False (PostReturns ?with) ''Hi'' fresh_provider =
      for_stream sample_loads False
        (PostReturns (sample_response [''[3,\"Hello\"]'', ''[3,\" world\"]''] Exhausted))
        ''Hi'' fresh_provider"
    by (simp add: sample_response_def)
  from inst hyps(4,5) lines
  have "for_stream sample_loads False (PostReturns ?with) ''Hi'' fresh_provider =
      (map (make_chunk False)
         (fragments sample_loads [''[3,\"Hello\"]''] @ fragments sample_loads [''[3,\" world\"]'']),
       Finished,
       fresh_provider\<lparr>last_response :=
           (last_response fresh_provider)(''text'' \<mapsto>
              concat (fragments sample_loads [''[3,\"Hello\"]''] @ fragments sample_loads [''[3,\" world\"]''])),
         chat_history :=
           chat_history fresh_provider @
             [(''Hi'', concat (fragments sample_loads [''[3,\"Hello\"]''] @
                               fragments sample_loads [''[3,\" world\"]'']))]\<rparr>)"
    by blast
  then have val: "for_stream sample_loads False (PostReturns ?with) ''Hi'' fresh_provider =
     ([TextDict ''Hello'', TextDict '' world''], Finished,
      \<lparr>last_response = [''text'' \<mapsto> ''Hello world''], chat_history = [(''Hi'', ''Hello world'')]\<rparr>)"
    by (simp add: frs make_chunk_def fresh_provider_def)
  from skip same val show ?thesis by simp
qed

text \<open>
  C3 as claimed fails: \<open>deep_line\<close> is not empty and does not parse, \<^verbatim>\<open>json.loads\<close> raising
  \<^verbatim>\<open>RecursionError\<close> on it; the decode is ended by it with an error, and the fragment of the
  line after it is never yielded.
\<close>

theorem undecodable_line_fatal_counterexample:
  "deep_line \<noteq> [] \<and>
   sample_loads deep_line =
     Raises (RecursionError
       ''maximum recursion depth exceeded while decoding a JSON array from a unicode string'') \<and>
   fragments sample_loads [deep_line, ''[3,\"Hello\"]''] = [''Hello''] \<and>
   for_stream sample_loads False
     (PostReturns (sample_response [deep_line, ''[3,\"Hello\"]''] Exhausted)) ''Hi'' fresh_provider =
     ([], Raised (FailedToGenerateResponseError
        ''An unexpected error occurred: maximum recursion depth exceeded while decoding a JSON array from a unicode string''),
      fresh_provider)"
proof -
  have "handle_line sample_loads deep_line =
      Raise (RecursionError
       ''maximum recursion depth exceeded while decoding a JSON array from a unicode string'')"
    using sample_loads_deep by (simp add: handle_line_def)
  then have "for_stream sample_loads False
     (PostReturns (sample_response [deep_line, ''[3,\"Hello\"]''] Exhausted)) ''Hi'' fresh_provider =
     ([], Raised (FailedToGenerateResponseError
        ''An unexpected error occurred: maximum recursion depth exceeded while decoding a JSON array from a unicode string''),
      fresh_provider)"
    by (simp add: for_stream_def sample_response_def)
  moreover have "fragments sample_loads [deep_line, ''[3,\"Hello\"]''] = [''Hello'']"
    using sample_loads_deep
    by (simp add: fragments_def List.map_filter_def fragment_of_def sample_loads_short sample_table_def)
  ultimately show ?thesis using sample_loads_deep by simp
qed

text \<open>
  C4. When the transport raises after the lines read so far were all processed, the decode
  yields the fragments of those lines, in order, and then raises
  \<^verbatim>\<open>ProviderConnectionError\<close>; the stored response and the history are as before.
\<close>

theorem transport_error_after_fragments:
  assumes "ok r" and "body_end r = Broken cause"
    and "\<forall>l\<in>set (body_lines r). \<forall>e. handle_line loads l \<noteq> Raise e"
  shows "for_stream loads raw (PostReturns r) prompt st =
           (map (make_chunk raw) (fragments loads (body_lines r)),
            Raised (ProviderConnectionError (''Request failed: '' @ cause)), st)"
  using assms(1,2) by (simp add: for_stream_def lines_loop_fragments [OF assms(3)])

theorem transport_error_after_fragments_witness:
  "for_stream sample_loads False
     (PostReturns (sample_response [''[3,\"Hello\"]'', ''[5,\"ignored\"]''] (Broken ''Connection reset'')))
     ''Hi'' fresh_provider =
     ([TextDict ''Hello''], Raised (ProviderConnectionError ''Request failed: Connection reset''),
      fresh_provider)"
proof -
  have lines: "\<forall>l\<in>set (body_lines (sample_response [''[3,\"Hello\"]'', ''[5,\"ignored\"]''] (Broken ''Connection reset''))).
      \<forall>e. handle_line sample_loads l \<noteq> Raise e"
    by (simp add: sample_response_def sample_loads_short sample_table_def handle_line_def shape_test_def)
  have frs: "fragments sample_loads [''[3,\"Hello\"]'', ''[5,\"ignored\"]''] = [''Hello'']"
    by (simp add: fragments_def List.map_filter_def fragment_of_def sample_loads_short sample_table_def)
  show ?thesis
    using transport_error_after_fragments [OF _ _ lines, of "''Connection reset''" False "''Hi''" fresh_provider]
    by (simp add: sample_response_def frs make_chunk_def)
qed

text \<open>
  C5. When the response is not ok, the decode yields nothing and raises an error whose
  message carries the status code and the body text; no line is read and the state is as
  before.
\<close>

theorem non_ok_status_raises:
  assumes "\<not> ok r"
  shows "for_stream loads raw (PostReturns r) prompt st =
           ([], Raised (FailedToGenerateResponseError
                  (''An unexpected error occurred: Request failed with status code ''
                   @ str_int (status_code r) @ '': '' @ body_text r)), st)"
  using assms by (simp add: for_stream_def)

theorem non_ok_status_raises_witness:
  "for_stream sample_loads False
     (PostReturns \<lparr>ok = False, status_code = 500, body_text = ''Internal Server Error'',
                   body_lines = [''[3,\"Hello\"]''], body_end = Exhausted\<rparr>) ''Hi'' fresh_provider =
     ([], Raised (FailedToGenerateResponseError
        ''An unexpected error occurred: Request failed with status code 500: Internal Server Error''),
      fresh_provider)"
  using non_ok_status_raises [of "\<lparr>ok = False, status_code = 500, body_text = ''Internal Server Error'',
                   body_lines = [''[3,\"Hello\"]''], body_end = Exhausted\<rparr>" sample_loads False "''Hi''" fresh_provider]
  by (simp add: str_int_def str_nat.simps)

text \<open>
  C6. When the lines are exhausted and none raised, the decode finishes and yields the
  fragments of the lines. Whenever it finishes, the final text is the concatenation, in
  order, of the texts of the chunks yielded; it is stored under \<open>text\<close> and handed to the
  history as exactly one new exchange with the prompt. Whenever the decode raises, the
  state is unchanged.
\<close>

theorem finalize_on_exhaustion:
  assumes "for_stream loads raw post prompt st = (ys, oc, st')"
  shows "(post = PostReturns r \<and> ok r \<and> body_end r = Exhausted \<and>
            (\<forall>l\<in>set (body_lines r). \<forall>e. handle_line loads l \<noteq> Raise e)
          \<longrightarrow> oc = Finished \<and> ys = map (make_chunk raw) (fragments loads (body_lines r))) \<and>
         (oc = Finished \<longrightarrow>
            st' = st\<lparr>last_response := (last_response st)(''text'' \<mapsto> concat (map chunk_text ys)),
                     chat_history := chat_history st @ [(prompt, concat (map chunk_text ys))]\<rparr>) \<and>
         (\<forall>e. oc = Raised e \<longrightarrow> st' = st)"
proof -
  have first: "oc = Finished \<and> ys = map (make_chunk raw) (fragments loads (body_lines r))"
    if "post = PostReturns r" "ok r" "body_end r = Exhausted"
      "\<forall>l\<in>set (body_lines r). \<forall>e. handle_line loads l \<noteq> Raise e"
    using assms that by (simp add: for_stream_def lines_loop_fragments finalize_finishes)
  from first for_stream_final_state [OF assms] show ?thesis by blast
qed

theorem finalize_on_exhaustion_witness:
  "for_stream sample_loads False
     (PostReturns (sample_response [''[3,\"Hello\"]'', ''[5,\"ignored\"]'', ''[3,\" world\"]''] Exhausted))
     ''Hi'' fresh_provider =
     ([TextDict ''Hello'', TextDict '' world''], Finished,
      \<lparr>last_response = [''text'' \<mapsto> ''Hello world''], chat_history = [(''Hi'', ''Hello world'')]\<rparr>) \<and>
   fragments sample_loads [''[3,\"Hello\"]'', ''[5,\"ignored\"]'', ''[3,\" world\"]''] = [''Hello'', '' world''] \<and>
   concat (map chunk_text [TextDict ''Hello'', TextDict '' world'']) = ''Hello world'' \<and>
   for_stream sample_loads False
     (PostReturns (sample_response [''[3,\"Hello\"]''] (Broken ''Connection reset''))) ''Hi'' fresh_provider =
     ([TextDict ''Hello''], Raised (ProviderConnectionError ''Request failed: Connection reset''),
      fresh_provider)"
proof -
  let ?r = "sample_response [''[3,\"Hello\"]'', ''[5,\"ignored\"]'', ''[3,\" world\"]''] Exhausted"
  obtain ys oc st' where run: "for_stream sample_loads False (PostReturns ?r) ''Hi'' fresh_provider = (ys, oc, st')"
    by (cases "for_stream sample_loads False (PostReturns ?r) ''Hi'' fresh_provider") auto
  have lines: "\<forall>l\<in>set (body_lines ?r). \<forall>e. handle_line sample_loads l \<noteq> Raise e"
    by (simp add: sample_response_def sample_loads_short sample_table_def handle_line_def shape_test_def)
  have frs: "fragments sample_loads [''[3,\"Hello\"]'', ''[5,\"ignored\"]'', ''[3,\" world\"]''] = [''Hello'', '' world'']"
    by (simp add: fragments_def List.map_filter_def fragment_of_def sample_loads_short sample_table_def)
  have "ok ?r" and "body_end ?r = Exhausted" and bl: "body_lines ?r = [''[3,\"Hello\"]'', ''[5,\"ignored\"]'', ''[3,\" world\"]'']"
    by (simp_all add: sample_response_def)
  with finalize_on_exhaustion [OF run, of ?r] lines
  have "oc = Finished" and "ys = map (make_chunk False) (fragments sample_loads (body_lines ?r))"
    and "st' = fresh_provider\<lparr>last_response := (last_response fresh_provider)(''text'' \<mapsto> concat (map chunk_text ys)),
                     chat_history := chat_history fresh_provider @ [(''Hi'', concat (map chunk_text ys))]\<rparr>"
    by blast+
  with run frs bl have first: "for_stream sample_loads False (PostReturns ?r) ''Hi'' fresh_provider =
     ([TextDict ''Hello'', TextDict '' world''], Finished,
      \<lparr>last_response = [''text'' \<mapsto> ''Hello world''], chat_history = [(''Hi'', ''Hello world'')]\<rparr>)"
    by (simp add: make_chunk_def fresh_provider_def)
  let ?b = "sample_response [''[3,\"Hello\"]''] (Broken ''Connection reset'')"
  obtain zs od su where brk: "for_stream sample_loads False (PostReturns ?b) ''Hi'' fresh_provider = (zs, od, su)"
    by (cases "for_stream sample_loads False (PostReturns ?b) ''Hi'' fresh_provider") auto
  with sample_broken_run [of False "''Hi''" fresh_provider]
  have "zs = [TextDict ''Hello'']" and od: "od = Raised (ProviderConnectionError ''Request failed: Connection reset'')"
    by (simp_all add: make_chunk_def)
  moreover from finalize_on_exhaustion [OF brk, of ?b] od have "su = fresh_provider"
    by blast
  ultimately have second: "for_stream sample_loads False (PostReturns ?b) ''Hi'' fresh_provider =
     ([TextDict ''Hello''], Raised (ProviderConnectionError ''Request failed: Connection reset''), fresh_provider)"
    using brk by simp
  from first frs second show ?thesis by simp
qed

text \<open>
  C7. Two sessions over the same response, with the same raw flag, started from any two
  provider states and prompts (the second may start from the state the first left), yield
  the same chunks and end the same way, and when they finish they leave the same final
  text.
\<close>

theorem decode_deterministic:
  assumes "for_stream loads raw post prompt1 st1 = (ys1, oc1, st1')"
    and "for_stream loads raw post prompt2 st2 = (ys2, oc2, st2')"
  shows "ys2 = ys1 \<and> oc2 = oc1 \<and>
         (oc1 = Finished \<longrightarrow>
            last_response st1' ''text'' = Some (concat (map chunk_text ys1)) \<and>
            last_response st2' ''text'' = last_response st1' ''text'')"
proof -
  have shape: "fst (for_stream loads raw post p s) = fst (for_stream loads raw post prompt1 st1) \<and>
      fst (snd (for_stream loads raw post p s)) = fst (snd (for_stream loads raw post prompt1 st1))" for p s
    by (simp add: for_stream_def finalize_finishes split: post_result.splits prod.splits sum.splits stream_end.splits)
  from shape [of prompt2 st2] assms have same: "ys2 = ys1" "oc2 = oc1" by simp_all
  have t1: "last_response st1' ''text'' = Some (concat (map chunk_text ys1))" if "oc1 = Finished"
    using for_stream_final_state [OF assms(1)] that by simp
  have t2: "last_response st2' ''text'' = Some (concat (map chunk_text ys2))" if "oc2 = Finished"
    using for_stream_final_state [OF assms(2)] that by simp
  from same t1 t2 show ?thesis by simp
qed

theorem decode_deterministic_witness:
  "for_stream sample_loads False
     (PostReturns (sample_response [''[3,\"Hello\"]'', ''[5,\"ignored\"]'', ''[3,\" world\"]''] Exhausted))
     ''Hi'' fresh_provider =
     ([TextDict ''Hello'', TextDict '' world''], Finished,
      \<lparr>last_response = [''text'' \<mapsto> ''Hello world''], chat_history = [(''Hi'', ''Hello world'')]\<rparr>) \<and>
   for_stream sample_loads False
     (PostReturns (sample_response [''[3,\"Hello\"]'', ''[5,\"ignored\"]'', ''[3,\" world\"]''] Exhausted))
     ''Again''
     \<lparr>last_response = [''text'' \<mapsto> ''Hello world''], chat_history = [(''Hi'', ''Hello world'')]\<rparr> =
     ([TextDict ''Hello'', TextDict '' world''], Finished,
      \<lparr>last_response = [''text'' \<mapsto> ''Hello world''],
       chat_history = [(''Hi'', ''Hello world''), (''Again'', ''Hello world'')]\<rparr>)"
proof -
  let ?p = "PostReturns (sample_response [''[3,\"Hello\"]'', ''[5,\"ignored\"]'', ''[3,\" world\"]''] Exhausted)"
  let ?st1 = "\<lparr>last_response = [''text'' \<mapsto> ''Hello world''], chat_history = [(''Hi'', ''Hello world'')]\<rparr>"
  have one: "for_stream sample_loads False ?p ''Hi'' fresh_provider =
      ([TextDict ''Hello'', TextDict '' world''], Finished, ?st1)"
    using sample_run [of False "''Hi''" fresh_provider] by (simp add: make_chunk_def fresh_provider_def)
  obtain ys2 oc2 st2 where two: "for_stream sample_loads False ?p ''Again'' ?st1 = (ys2, oc2, st2)"
    by (cases "for_stream sample_loads False ?p ''Again'' ?st1") auto
  from decode_deterministic [OF one two]
  have "ys2 = [TextDict ''Hello'', TextDict '' world'']" and "oc2 = Finished"
    and "last_response st2 ''text'' = Some ''Hello world''"
    by simp_all
  moreover from two sample_run [of False "''Again''" ?st1]
  have "st2 = \<lparr>last_response = [''text'' \<mapsto> ''Hello world''],
       chat_history = [(''Hi'', ''Hello world''), (''Again'', ''Hello world'')]\<rparr>"
    by simp
  ultimately show ?thesis using one two by simp
qed

text \<open>
  C10. \<open>ask\<close> without streaming runs the same generator to its end: when the generator
  finishes, it returns the stored response, whose text is the concatenation of the chunks
  the streaming call yields, and leaves the same state; when the generator raises, it
  raises the same error.
\<close>

theorem non_stream_returns_stream_text:
  assumes "for_stream loads raw post prompt st = (ys, oc, st')"
  shows "ask loads post prompt True raw st = (Generator ys oc, st') \<and>
         (oc = Finished \<longrightarrow>
            ask loads post prompt False raw st = (Response (Inr (last_response st')), st') \<and>
            last_response st' ''text'' = Some (concat (map chunk_text ys))) \<and>
         (\<forall>e. oc = Raised e \<longrightarrow> ask loads post prompt False raw st = (Response (Inl e), st'))"
proof -
  have "last_response st' ''text'' = Some (concat (map chunk_text ys))" if "oc = Finished"
    using for_stream_final_state [OF assms] that by simp
  then show ?thesis
    using assms by (auto simp: ask_def for_non_stream_def)
qed

theorem non_stream_returns_stream_text_witness:
  "ask sample_loads
     (PostReturns (sample_response [''[3,\"Hello\"]'', ''[5,\"ignored\"]'', ''[3,\" world\"]''] Exhausted))
     ''Hi'' True False fresh_provider =
     (Generator [TextDict ''Hello'', TextDict '' world''] Finished,
      \<lparr>last_response = [''text'' \<mapsto> ''Hello world''], chat_history = [(''Hi'', ''Hello world'')]\<rparr>) \<and>
   ask sample_loads
     (PostReturns (sample_response [''[3,\"Hello\"]'', ''[5,\"ignored\"]'', ''[3,\" world\"]''] Exhausted))
     ''Hi'' False False fresh_provider =
     (Response (Inr [''text'' \<mapsto> ''Hello world'']),
      \<lparr>last_response = [''text'' \<mapsto> ''Hello world''], chat_history = [(''Hi'', ''Hello world'')]\<rparr>) \<and>
   ask sample_loads (PostReturns (sample_response [''[3,\"Hello\"]''] (Broken ''Connection reset'')))
     ''Hi'' False False fresh_provider =
     (Response (Inl (ProviderConnectionError ''Request failed: Connection reset'')), fresh_provider)"
proof -
  let ?p = "PostReturns (sample_response [''[3,\"Hello\"]'', ''[5,\"ignored\"]'', ''[3,\" world\"]''] Exhausted)"
  let ?st1 = "\<lparr>last_response = [''text'' \<mapsto> ''Hello world''], chat_history = [(''Hi'', ''Hello world'')]\<rparr>"
  have one: "for_stream sample_loads False ?p ''Hi'' fresh_provider =
      ([TextDict ''Hello'', TextDict '' world''], Finished, ?st1)"
    using sample_run [of False "''Hi''" fresh_provider] by (simp add: make_chunk_def fresh_provider_def)
  have two: "for_stream sample_loads False
      (PostReturns (sample_response [''[3,\"Hello\"]''] (Broken ''Connection reset''))) ''Hi'' fresh_provider =
     ([TextDict ''Hello''], Raised (ProviderConnectionError ''Request failed: Connection reset''), fresh_provider)"
    using sample_broken_run [of False "''Hi''" fresh_provider] by (simp add: make_chunk_def)
  from non_stream_returns_stream_text [OF one] non_stream_returns_stream_text [OF two]
  show ?thesis by simp
qed

end
